theory Spec2Isabelle
  imports Complex_Main
begin

section \<open>The C++ double type\<close>

text \<open>
  A \<open>double\<close> is a finite value, one of the two infinities, or NaN. A finite double
  is identified with the real number it denotes: rounding, overflow to infinity and the
  sign of zero are not modelled (the one zero behaves as \<open>+0.0\<close>). The special values
  follow IEEE 754: every comparison with NaN is false, a nonzero finite value divided
  by zero is an infinity, \<open>0/0\<close>, \<open>inf - inf\<close>, \<open>0 * inf\<close> and \<open>inf/inf\<close> are NaN.
\<close>

datatype double = Fin real | PInf | NInf | NaN

fun dless :: "double \<Rightarrow> double \<Rightarrow> bool" where
  "dless (Fin x) (Fin y) = (x < y)"
| "dless (Fin x) PInf = True"
| "dless NInf (Fin y) = True"
| "dless NInf PInf = True"
| "dless _ _ = False"

fun dle :: "double \<Rightarrow> double \<Rightarrow> bool" where
  "dle (Fin x) (Fin y) = (x \<le> y)"
| "dle (Fin x) PInf = True"
| "dle NInf (Fin y) = True"
| "dle NInf PInf = True"
| "dle PInf PInf = True"
| "dle NInf NInf = True"
| "dle _ _ = False"

definition dgt :: "double \<Rightarrow> double \<Rightarrow> bool" where
  "dgt a b = dless b a"

definition dge :: "double \<Rightarrow> double \<Rightarrow> bool" where
  "dge a b = dle b a"

fun dneg :: "double \<Rightarrow> double" where
  "dneg (Fin x) = Fin (- x)"
| "dneg PInf = NInf"
| "dneg NInf = PInf"
| "dneg NaN = NaN"

fun dadd :: "double \<Rightarrow> double \<Rightarrow> double" where
  "dadd (Fin x) (Fin y) = Fin (x + y)"
| "dadd NaN _ = NaN"
| "dadd _ NaN = NaN"
| "dadd PInf NInf = NaN"
| "dadd NInf PInf = NaN"
| "dadd PInf _ = PInf"
| "dadd NInf _ = NInf"
| "dadd (Fin x) b = b"

definition dsub :: "double \<Rightarrow> double \<Rightarrow> double" where
  "dsub a b = dadd a (dneg b)"

text \<open>The sign of a double: \<open>1\<close>, \<open>-1\<close>, or \<open>0\<close> for zero and NaN.\<close>

fun dsign :: "double \<Rightarrow> int" where
  "dsign (Fin x) = (if x > 0 then 1 else if x < 0 then - 1 else 0)"
| "dsign PInf = 1"
| "dsign NInf = - 1"
| "dsign NaN = 0"

definition signed_inf :: "int \<Rightarrow> double" where
  "signed_inf s = (if s > 0 then PInf else if s < 0 then NInf else NaN)"

fun dmul :: "double \<Rightarrow> double \<Rightarrow> double" where
  "dmul (Fin x) (Fin y) = Fin (x * y)"
| "dmul NaN _ = NaN"
| "dmul _ NaN = NaN"
| "dmul a b = signed_inf (dsign a * dsign b)"

fun ddiv :: "double \<Rightarrow> double \<Rightarrow> double" where
  "ddiv (Fin x) (Fin y) = (if y = 0 then signed_inf (dsign (Fin x)) else Fin (x / y))"
| "ddiv NaN _ = NaN"
| "ddiv _ NaN = NaN"
| "ddiv (Fin x) _ = Fin 0"
| "ddiv a (Fin y) = signed_inf (dsign a * (if y < 0 then - 1 else 1))"
| "ddiv _ _ = NaN"

fun dsqrt :: "double \<Rightarrow> double" where
  "dsqrt (Fin x) = (if x < 0 then NaN else Fin (sqrt x))"
| "dsqrt PInf = PInf"
| "dsqrt _ = NaN"

text \<open>
  \<open>M_PI\<close> of \<open>math.h\<close> is taken as the real \<open>\<pi>\<close>, and \<open>atan2\<close> has its C99 values
  at the infinities (F.9.1.4).
\<close>

definition M_PI :: double where
  "M_PI = Fin pi"

fun datan2 :: "double \<Rightarrow> double \<Rightarrow> double" where
  "datan2 NaN _ = NaN"
| "datan2 _ NaN = NaN"
| "datan2 (Fin y) (Fin x) =
     Fin (if x > 0 then arctan (y / x)
          else if x < 0 then (if y \<ge> 0 then arctan (y / x) + pi else arctan (y / x) - pi)
          else if y > 0 then pi / 2 else if y < 0 then - (pi / 2) else 0)"
| "datan2 (Fin y) PInf = Fin 0"
| "datan2 (Fin y) NInf = Fin (if y \<ge> 0 then pi else - pi)"
| "datan2 PInf (Fin x) = Fin (pi / 2)"
| "datan2 NInf (Fin x) = Fin (- (pi / 2))"
| "datan2 PInf PInf = Fin (pi / 4)"
| "datan2 NInf PInf = Fin (- (pi / 4))"
| "datan2 PInf NInf = Fin (3 * pi / 4)"
| "datan2 NInf NInf = Fin (- (3 * pi / 4))"

section \<open>Eigen vectors\<close>

type_synonym Vector2d = "double \<times> double"
type_synonym Vector3d = "double \<times> double \<times> double"
type_synonym Matrix3d = "Vector3d \<times> Vector3d \<times> Vector3d"

text \<open>\<open>norm()\<close> is the square root of the sum of the squared coefficients.\<close>

definition norm2d :: "Vector2d \<Rightarrow> double" where
  "norm2d v = (case v of (x, y) \<Rightarrow> dsqrt (dadd (dmul x x) (dmul y y)))"

definition norm3d :: "Vector3d \<Rightarrow> double" where
  "norm3d v = (case v of (x, y, z) \<Rightarrow> dsqrt (dadd (dadd (dmul x x) (dmul y y)) (dmul z z)))"

text \<open>\<open>normalize()\<close> divides the vector by its norm in place (\<open>*this /= norm()\<close>).\<close>

definition normalize2d :: "Vector2d \<Rightarrow> Vector2d" where
  "normalize2d v = (case v of (x, y) \<Rightarrow> (ddiv x (norm2d v), ddiv y (norm2d v)))"

definition sub3d :: "Vector3d \<Rightarrow> Vector3d \<Rightarrow> Vector3d" where
  "sub3d a b = (case a of (ax, ay, az) \<Rightarrow> case b of (bx, by, bz) \<Rightarrow>
     (dsub ax bx, dsub ay by, dsub az bz))"

section \<open>The curve kernel (SISL)\<close>

text \<open>
  The SISL library is an external collaborator: its numerical routines are parameters of
  the model, one field per routine that \<open>spline.cpp\<close> calls. A routine receives the curve
  object its pointer argument refers to (\<open>None\<close> for a null pointer or one that is not
  live), then the input arguments in the order of the call, and returns the contents of
  its output arguments after the call followed by the status \<open>jstat\<close>. Where the
  output argument is a member of the handle, its previous contents are passed last,
  so that a routine may leave it as it was.
\<close>

type_synonym addr = nat

record SISLIntcurve =
  epar1 :: "double list"

record 'c sisl =
  s1227 :: "'c option \<Rightarrow> double \<Rightarrow> double list \<times> int"
  s2550 :: "'c option \<Rightarrow> double \<Rightarrow> double \<times> int"
  s2556 :: "'c option \<Rightarrow> double \<Rightarrow> double \<times> int"
  s1240 :: "'c option \<Rightarrow> double \<Rightarrow> double \<Rightarrow> double \<times> int"
  s1356 :: "double list \<Rightarrow> int \<Rightarrow> int \<Rightarrow> int \<Rightarrow> double \<Rightarrow> double \<Rightarrow> double \<times> 'c option \<times> int"
  s1357 :: "double list \<Rightarrow> int \<Rightarrow> int \<Rightarrow> double list \<Rightarrow> int \<Rightarrow> double \<Rightarrow> double
            \<Rightarrow> double \<times> 'c option \<times> int"
  s1953 :: "'c option \<Rightarrow> double list \<Rightarrow> int \<Rightarrow> double \<Rightarrow> double list \<times> SISLIntcurve list \<times> int"
  s1774 :: "'c option \<Rightarrow> double list \<Rightarrow> int \<Rightarrow> double \<Rightarrow> double \<Rightarrow> double \<Rightarrow> double \<Rightarrow> double \<times> int"
  s1940 :: "'c option \<Rightarrow> double \<Rightarrow> int \<Rightarrow> 'c option \<times> Vector3d \<times> int"
  s2559 :: "'c option \<Rightarrow> double \<Rightarrow> Matrix3d \<times> int"

text \<open>
  The kernel's side of the memory: the live curve objects by address, the next address
  the allocator hands out, and the record of the kernel calls made so far, oldest first.
\<close>

datatype call =
    Call_s1227 double
  | Call_s2550 double
  | Call_s2556 double
  | Call_s1240 double
  | Call_s1356
  | Call_s1357
  | Call_s1953 double
  | Call_s1774 double double double double
  | Call_s1940 double
  | Call_s2559 double
  | Call_freeCurve addr
  | Call_copyCurve addr

record 'c sisl_world =
  heap :: "addr \<Rightarrow> 'c option"
  next_addr :: addr
  calls :: "call list"

definition deref :: "'c sisl_world \<Rightarrow> addr option \<Rightarrow> 'c option" where
  "deref w p = (case p of None \<Rightarrow> None | Some a \<Rightarrow> heap w a)"

definition record_call :: "call \<Rightarrow> 'c sisl_world \<Rightarrow> 'c sisl_world" where
  "record_call c w = w\<lparr>calls := calls w @ [c]\<rparr>"

text \<open>A curve object the kernel returns is placed at a fresh address; \<open>None\<close> is \<open>NULL\<close>.\<close>

definition newCurve :: "'c option \<Rightarrow> 'c sisl_world \<Rightarrow> addr option \<times> 'c sisl_world" where
  "newCurve oc w = (case oc of
       None \<Rightarrow> (None, w)
     | Some c \<Rightarrow> (Some (next_addr w),
                  w\<lparr>heap := (heap w)(next_addr w := Some c), next_addr := Suc (next_addr w)\<rparr>))"


definition copyCurve :: "addr \<Rightarrow> 'c sisl_world \<Rightarrow> addr option \<times> 'c sisl_world" where
  "copyCurve a w = newCurve (heap w a) (record_call (Call_copyCurve a) w)"

section \<open>SplineBase\<close>

datatype error =
    out_of_range string
  | runtime_error string
  | logic_error string
  | division_by_zero_trap

record SplineBase =
  dimension :: int
  curve :: "addr option"
  geometric_resolution :: double
  curve_order :: int
  start_param :: double
  end_param :: double
  has_curve_length :: bool
  curve_length :: double
  has_curvature_max :: bool
  curvature_max :: double

text \<open>
  A member function takes the kernel, the handle \<open>*this\<close> and the kernel's memory, and
  returns its result together with the memory (and the handle, when it writes to a
  member). A thrown exception is the result \<open>Inl\<close>; what was written before the
  \<open>throw\<close> stays written.
\<close>

subsection \<open>Assignment\<close>

text \<open>
  \<open>operator=\<close> compares the addresses of its two operands, so it is modelled on a store
  of handles: \<open>this\<close> and \<open>source\<close> are addresses of \<open>SplineBase\<close> objects.
\<close>

definition operator_assign ::
  "(addr \<Rightarrow> SplineBase) \<Rightarrow> 'c sisl_world \<Rightarrow> addr \<Rightarrow> addr \<Rightarrow> (addr \<Rightarrow> SplineBase) \<times> 'c sisl_world" where
  "operator_assign objs w this source =
     (if source = this then (objs, w)
      else
        let src = objs source;
            (c, w1) = (case curve src of Some a \<Rightarrow> copyCurve a w | None \<Rightarrow> (None, w))
        in (objs(this := (objs this)\<lparr>
              dimension := dimension src,
              curve := c,
              geometric_resolution := geometric_resolution src,
              curve_order := curve_order src,
              start_param := start_param src,
              end_param := end_param src,
              has_curve_length := has_curve_length src,
              curve_length := curve_length src,
              has_curvature_max := has_curvature_max src,
              curvature_max := curvature_max src\<rparr>), w1))"

subsection \<open>Point and differential queries\<close>

definition getPoint ::
  "'c sisl \<Rightarrow> SplineBase \<Rightarrow> 'c sisl_world \<Rightarrow> double \<Rightarrow> (error + double list) \<times> 'c sisl_world" where
  "getPoint K h w param =
     (if dless param (start_param h) \<or> dgt param (end_param h)
      then (Inl (out_of_range ''_param is not in the [start_param, end_param] range''), w)
      else
        let (result, status) = s1227 K (deref w (curve h)) param;
            w1 = record_call (Call_s1227 param) w
        in if status \<noteq> 0
           then (Inl (runtime_error ''SISL error while computing a curve point''), w1)
           else (Inr result, w1))"

definition getCurvature ::
  "'c sisl \<Rightarrow> SplineBase \<Rightarrow> 'c sisl_world \<Rightarrow> double \<Rightarrow> (error + double) \<times> 'c sisl_world" where
  "getCurvature K h w param =
     (if dless param (start_param h) \<or> dgt param (end_param h)
      then (Inl (out_of_range ''_param is not in the [start_param, end_param] range''), w)
      else
        let (curvature, status) = s2550 K (deref w (curve h)) param;
            w1 = record_call (Call_s2550 param) w
        in if status \<noteq> 0
           then (Inl (runtime_error ''SISL error while computing a curvature''), w1)
           else (Inr curvature, w1))"

definition getVariationOfCurvature ::
  "'c sisl \<Rightarrow> SplineBase \<Rightarrow> 'c sisl_world \<Rightarrow> double \<Rightarrow> (error + double) \<times> 'c sisl_world" where
  "getVariationOfCurvature K h w param =
     (if dless param (start_param h) \<or> dgt param (end_param h)
      then (Inl (out_of_range ''_param is not in the [start_param, end_param] range''), w)
      else
        let (VoC, status) = s2556 K (deref w (curve h)) param;
            w1 = record_call (Call_s2556 param) w
        in if status \<noteq> 0
           then (Inl (runtime_error ''SISL error while computing a variation of curvature''), w1)
           else (Inr VoC, w1))"

text \<open>\<open>getFrenetFrame\<close> has no \<open>throw\<close>: it returns the rows \<open>t\<close>, \<open>n\<close>, \<open>b\<close> whatever the status.\<close>

definition getFrenetFrame ::
  "'c sisl \<Rightarrow> SplineBase \<Rightarrow> 'c sisl_world \<Rightarrow> double \<Rightarrow> Matrix3d \<times> 'c sisl_world" where
  "getFrenetFrame K h w param =
     (let (frame, status) = s2559 K (deref w (curve h)) param
      in (frame, record_call (Call_s2559 param) w))"

definition getHeading ::
  "'c sisl \<Rightarrow> SplineBase \<Rightarrow> 'c sisl_world \<Rightarrow> double \<Rightarrow> double \<times> 'c sisl_world" where
  "getHeading K h w param =
     (let (frame, w1) = getFrenetFrame K h w param;
          (t, n, b) = frame;
          (t0, t1, t2) = t;
          Xaxis = normalize2d (t0, t1)
      in (datan2 (snd Xaxis) (fst Xaxis), w1))"

subsection \<open>Derived scalars\<close>

definition getCurveLength ::
  "'c sisl \<Rightarrow> SplineBase \<Rightarrow> 'c sisl_world \<Rightarrow> (error + double) \<times> SplineBase \<times> 'c sisl_world" where
  "getCurveLength K h w =
     (if has_curve_length h then (Inr (curve_length h), h, w)
      else
        let (len, status) = s1240 K (deref w (curve h)) (geometric_resolution h) (curve_length h);
            h1 = h\<lparr>curve_length := len\<rparr>;
            w1 = record_call (Call_s1240 (geometric_resolution h)) w
        in if status \<noteq> 0
           then (Inl (runtime_error ''cannot get the curve length''), h1, w1)
           else (Inr (curve_length h1), h1\<lparr>has_curve_length := True\<rparr>, w1))"

definition getUnitParameter ::
  "'c sisl \<Rightarrow> SplineBase \<Rightarrow> 'c sisl_world \<Rightarrow> (error + double) \<times> SplineBase \<times> 'c sisl_world" where
  "getUnitParameter K h w =
     (case getCurveLength K h w of
        (Inl e, h1, w1) \<Rightarrow> (Inl e, h1, w1)
      | (Inr len, h1, w1) \<Rightarrow> (Inr (ddiv (dsub (end_param h1) (start_param h1)) len), h1, w1))"

text \<open>
  The sampling loop of \<open>getCurvatureMax\<close>, \<open>for (p = start_param; p <= end_param; p += delPara)\<close>,
  need not end: with a step \<open>delPara\<close> of zero it samples \<open>start_param\<close> for ever. Not
  returning is the value \<open>None\<close>. A \<open>throw\<close> of \<open>getCurvature\<close> leaves the loop with the
  maximum found so far in \<open>curvature_max\<close> and the flag unset.
\<close>

partial_function (option) curvature_scan ::
  "'c sisl \<Rightarrow> double \<Rightarrow> double \<Rightarrow> SplineBase \<Rightarrow> 'c sisl_world
   \<Rightarrow> ((error + unit) \<times> SplineBase \<times> 'c sisl_world) option" where
  "curvature_scan K delPara p h w =
     (if dle p (end_param h) then
        (case getCurvature K h w p of
           (Inl e, w1) \<Rightarrow> Some (Inl e, h, w1)
         | (Inr curvature, w1) \<Rightarrow>
             curvature_scan K delPara (dadd p delPara)
               (if dgt curvature (curvature_max h) then h\<lparr>curvature_max := curvature\<rparr> else h) w1)
      else Some (Inr (), h, w))"

definition getCurvatureMax ::
  "'c sisl \<Rightarrow> SplineBase \<Rightarrow> 'c sisl_world
   \<Rightarrow> ((error + double) \<times> SplineBase \<times> 'c sisl_world) option" where
  "getCurvatureMax K h w =
     (if has_curvature_max h then Some (Inr (curvature_max h), h, w)
      else
        (case getUnitParameter K h w of
           (Inl e, h1, w1) \<Rightarrow> Some (Inl e, h1, w1)
         | (Inr u, h1, w1) \<Rightarrow>
             let delPara = dmul u (geometric_resolution h1);
                 h2 = h1\<lparr>curvature_max := Fin 0\<rparr>
             in (case curvature_scan K delPara (start_param h2) h2 w1 of
                   None \<Rightarrow> None
                 | Some (Inl e, h3, w3) \<Rightarrow> Some (Inl e, h3, w3)
                 | Some (Inr u, h3, w3) \<Rightarrow>
                     Some (Inr (curvature_max h3), h3\<lparr>has_curvature_max := True\<rparr>, w3))))"

subsection \<open>Fitting, clearing, simplifying\<close>







subsection \<open>Closest-point search\<close>

definition findClosestPoints ::
  "'c sisl \<Rightarrow> SplineBase \<Rightarrow> 'c sisl_world \<Rightarrow> double list \<Rightarrow> double list \<Rightarrow> (double \<times> double) list
   \<Rightarrow> double \<Rightarrow> (error + double list \<times> (double \<times> double) list) \<times> 'c sisl_world" where
  "findClosestPoints K h w ref_point result_points result_curves geores =
     (let (points, curves, status) = s1953 K (deref w (curve h)) ref_point (dimension h) geores;
          w1 = record_call (Call_s1953 geores) w
      in if status \<noteq> 0
         then (Inl (runtime_error ''failed to find the closest points''), w1)
         else (Inr (result_points @ points,
                    result_curves @ map (\<lambda>c. (epar1 c ! 0, epar1 c ! 1)) curves), w1))"

definition findOneClosestPoint ::
  "'c sisl \<Rightarrow> SplineBase \<Rightarrow> 'c sisl_world \<Rightarrow> double list \<Rightarrow> double
   \<Rightarrow> (error + double) \<times> 'c sisl_world" where
  "findOneClosestPoint K h w pt geores =
     (case findClosestPoints K h w pt [] [] geores of
        (Inl e, w1) \<Rightarrow> (Inl e, w1)
      | (Inr (points, curves), w1) \<Rightarrow>
          (if points = []
           then (if curves = []
                 then (Inl (logic_error ''no closes point returned by findClosestPoints''), w1)
                 else (Inr (fst (hd curves)), w1))
           else (Inr (hd points), w1)))"

definition localClosestPointSearch ::
  "'c sisl \<Rightarrow> SplineBase \<Rightarrow> 'c sisl_world \<Rightarrow> double list \<Rightarrow> double \<Rightarrow> double \<Rightarrow> double \<Rightarrow> double
   \<Rightarrow> (error + double) \<times> 'c sisl_world" where
  "localClosestPointSearch K h w ref_point guess wstart wend geores =
     (let (param, status) =
            s1774 K (deref w (curve h)) ref_point (dimension h) geores wstart wend guess;
          w1 = record_call (Call_s1774 geores wstart wend guess) w
      in if status < 0
         then (Inl (runtime_error ''failed to find the closest points''), w1)
         else (Inr param, w1))"

subsection \<open>Trajectory errors\<close>

definition headingError ::
  "'c sisl \<Rightarrow> SplineBase \<Rightarrow> 'c sisl_world \<Rightarrow> double \<Rightarrow> double \<Rightarrow> double \<times> 'c sisl_world" where
  "headingError K h w actHeading param =
     (let (heading, w1) = getHeading K h w param;
          error = dsub actHeading heading
      in (if dgt error M_PI then dsub error (dmul (Fin 2) M_PI)
          else if dless error (dneg M_PI) then dadd error (dmul (Fin 2) M_PI)
          else error, w1))"

text \<open>
  \<open>getPoint\<close> writes the coordinates into the buffer of a local \<open>Vector3d\<close>; the third
  coefficient of the difference is overwritten with zero before it is read.
\<close>

definition distanceError ::
  "'c sisl \<Rightarrow> SplineBase \<Rightarrow> 'c sisl_world \<Rightarrow> Vector3d \<Rightarrow> double
   \<Rightarrow> (error + double) \<times> 'c sisl_world" where
  "distanceError K h w pt param =
     (case getPoint K h w param of
        (Inl e, w1) \<Rightarrow> (Inl e, w1)
      | (Inr r, w1) \<Rightarrow>
          let curve_point = (r ! 0, r ! 1, r ! 2);
              (e0, e1, e2) = sub3d pt curve_point;
              error = (e0, e1, Fin 0);
              pt_vec = normalize2d (e0, e1);
              (heading, w2) = getHeading K h w1 param;
              angle = dsub (datan2 (snd pt_vec) (fst pt_vec)) heading
          in (Inr (if dge angle (Fin 0) then norm3d error else dneg (norm3d error)), w2))"

text \<open>
  Modelled from the spec: \<open>getGeometricResolution\<close> is an inline accessor of the class
  declaration in \<open>spline.h\<close>, which is not among the sources; the spec calls its value
  "the configured geometric resolution", the member \<open>geometric_resolution\<close>.
\<close>

definition getGeometricResolution :: "SplineBase \<Rightarrow> double" where
  "getGeometricResolution h = geometric_resolution h"

text \<open>
  The three arguments of the returned \<open>Vector3d\<close> are evaluated here from left to right.
  C++ leaves the order open; \<open>headingError\<close> neither throws nor writes to the handle, so
  the other order gives the same result and the same handle, with the kernel calls of
  the two error computations recorded in the other order.
\<close>

definition poseError ::
  "'c sisl \<Rightarrow> SplineBase \<Rightarrow> 'c sisl_world \<Rightarrow> Vector3d \<Rightarrow> double \<Rightarrow> double \<Rightarrow> double
   \<Rightarrow> (error + Vector3d) \<times> SplineBase \<times> 'c sisl_world" where
  "poseError K h w pt actZRot st_para len_tol =
     (case getUnitParameter K h w of
        (Inl e, h1, w1) \<Rightarrow> (Inl e, h1, w1)
      | (Inr u, h1, w1) \<Rightarrow>
          let del_para = dmul u len_tol
          in (case localClosestPointSearch K h1 w1 [fst pt, fst (snd pt), snd (snd pt)]
                     st_para st_para (dadd st_para del_para) (getGeometricResolution h1) of
                (Inl e, w2) \<Rightarrow> (Inl e, h1, w2)
              | (Inr param, w2) \<Rightarrow>
                  (case distanceError K h1 w2 pt param of
                     (Inl e, w3) \<Rightarrow> (Inl e, h1, w3)
                   | (Inr d, w3) \<Rightarrow>
                       let (he, w4) = headingError K h1 w3 actZRot param
                       in (Inr (d, he, param), h1, w4))))"

section \<open>A concrete kernel and handle\<close>

text \<open>
  A kernel to evaluate the member functions on: a curve object is a real \<open>L\<close>, standing
  for the straight segment from the origin to \<open>(L, 0, 0)\<close> with parameter domain
  \<open>[0, 1]\<close>. Its arc length is \<open>L\<close>, its tangent the X axis. Every routine reports the
  status \<open>-150\<close> on a null curve; the local closest-point search answers its guess with
  the warning status \<open>1\<close>. A segment with \<open>L = 0\<close> is a curve of length zero.
\<close>

definition x_axis_frame :: Matrix3d where
  "x_axis_frame = ((Fin 1, Fin 0, Fin 0), (Fin 0, Fin 1, Fin 0), (Fin 0, Fin 0, Fin 1))"

definition line_kernel :: "real sisl" where
  "line_kernel = \<lparr>
     s1227 = (\<lambda>c p. case c of None \<Rightarrow> ([], - 150)
                     | Some L \<Rightarrow> ([dmul (Fin L) p, Fin 0, Fin 0], 0)),
     s2550 = (\<lambda>c p. case c of None \<Rightarrow> (NaN, - 150) | Some L \<Rightarrow> (Fin 0, 0)),
     s2556 = (\<lambda>c p. case c of None \<Rightarrow> (NaN, - 150) | Some L \<Rightarrow> (Fin 0, 0)),
     s1240 = (\<lambda>c eps old. case c of None \<Rightarrow> (old, - 150) | Some L \<Rightarrow> (Fin L, 0)),
     s1356 = (\<lambda>pts n dim order start old_end.
                if n < 2 then (old_end, None, - 150) else (Fin 1, Some (real_of_int (n - 1)), 0)),
     s1357 = (\<lambda>pts n dim pars order start old_end.
                if n < 2 then (old_end, None, - 150) else (Fin 1, Some (real_of_int (n - 1)), 0)),
     s1953 = (\<lambda>c pt dim geores. case c of None \<Rightarrow> ([], [], - 150)
                     | Some L \<Rightarrow> ([Fin 0], [], 0)),
     s1774 = (\<lambda>c pt dim geores wstart wend guess.
                case c of None \<Rightarrow> (NaN, - 150) | Some L \<Rightarrow> (guess, 1)),
     s1940 = (\<lambda>c tol order. case c of None \<Rightarrow> (None, (NaN, NaN, NaN), - 150)
                     | Some L \<Rightarrow> (Some L, (Fin 0, Fin 0, Fin 0), 0)),
     s2559 = (\<lambda>c p. (x_axis_frame, case c of None \<Rightarrow> - 150 | Some L \<Rightarrow> 0)) \<rparr>"

text \<open>
  A handle as the constructor \<open>SplineBase(3, 0.1, 3)\<close> initialises it, after a fit: its
  curve lives at address \<open>0\<close>. In \<open>world L\<close> that curve is the segment of length \<open>L\<close>.
\<close>

definition handle0 :: SplineBase where
  "handle0 = \<lparr> dimension = 3, curve = Some 0, geometric_resolution = Fin (1 / 10),
               curve_order = 3, start_param = Fin 0, end_param = Fin 1,
               has_curve_length = False, curve_length = Fin (- 1),
               has_curvature_max = False, curvature_max = Fin (- 1) \<rparr>"

definition world :: "real \<Rightarrow> real sisl_world" where
  "world L = \<lparr> heap = (\<lambda>a. if a = 0 then Some L else None), next_addr = 1, calls = [] \<rparr>"




text \<open>
  The same segments run backwards, from the origin to \<open>(-L, 0, 0)\<close>: the tangent is
  \<open>(-1, 0, 0)\<close>, the heading \<open>\<pi>\<close>, and the left of the path is the side of negative \<open>y\<close>.
\<close>

definition reversed_frame :: Matrix3d where
  "reversed_frame = ((Fin (- 1), Fin 0, Fin 0), (Fin 0, Fin (- 1), Fin 0), (Fin 0, Fin 0, Fin 1))"

definition reversed_kernel :: "real sisl" where
  "reversed_kernel = line_kernel\<lparr>
     s1227 := (\<lambda>c p. case c of None \<Rightarrow> ([], - 150)
                      | Some L \<Rightarrow> ([dmul (Fin (- L)) p, Fin 0, Fin 0], 0)),
     s2559 := (\<lambda>c p. (reversed_frame, case c of None \<Rightarrow> - 150 | Some L \<Rightarrow> 0)) \<rparr>"

section \<open>Auxiliary facts\<close>

lemmas concrete_defs = line_kernel_def handle0_def world_def x_axis_frame_def

lemmas eval_defs = concrete_defs deref_def record_call_def dgt_def dge_def dsub_def signed_inf_def
  normalize2d_def norm2d_def norm3d_def sub3d_def M_PI_def

lemma pi_not_le_zero: "\<not> pi \<le> 0"
  using pi_gt_zero by linarith

lemma dle_not_dless: "dle a b \<Longrightarrow> \<not> dless b a"
  by (cases a; cases b) auto

lemma dadd_zero_right: "dadd a (Fin 0) = a"
  by (cases a) auto

lemma norm3d_horizontal: "norm3d (x, y, Fin 0) = norm2d (x, y)"
  by (simp add: norm3d_def norm2d_def dadd_zero_right)

text \<open>
  For a finite vector that is not zero, normalising does not change the bearing.
\<close>

lemma bearing_normalize2d:
  assumes "x \<noteq> 0 \<or> y \<noteq> 0"
  shows "datan2 (snd (normalize2d (Fin x, Fin y))) (fst (normalize2d (Fin x, Fin y))) =
         datan2 (Fin y) (Fin x)"
proof -
  define n where "n = sqrt (x * x + y * y)"
  have pos: "x * x + y * y > 0" using assms
    by (metis add_pos_nonneg add_nonneg_pos zero_le_square not_real_square_gt_zero)
  then have n: "n > 0" unfolding n_def by (rule real_sqrt_gt_zero)
  have nn: "\<not> x * x + y * y < 0" using pos by linarith
  have "norm2d (Fin x, Fin y) = Fin n"
    using nn by (simp add: norm2d_def n_def)
  then have norm: "normalize2d (Fin x, Fin y) = (Fin (x / n), Fin (y / n))"
    using n by (simp add: normalize2d_def)
  have q: "(y / n) / (x / n) = y / x" using n by simp
  have s1: "(x / n > 0) = (x > 0)" using n by (simp add: zero_less_divide_iff)
  have s2: "(x / n < 0) = (x < 0)" using n by (simp add: divide_less_0_iff)
  have s3: "(y / n > 0) = (y > 0)" using n by (simp add: zero_less_divide_iff)
  have s4: "(y / n < 0) = (y < 0)" using n by (simp add: divide_less_0_iff)
  have s5: "(y / n \<ge> 0) = (y \<ge> 0)" using n by (simp add: zero_le_divide_iff)
  show ?thesis
    unfolding norm by (simp only: fst_conv snd_conv datan2.simps q s1 s2 s3 s4 s5)
qed

lemma deref_record_call: "deref (record_call c w) p = deref w p"
  by (simp add: deref_def record_call_def split: option.splits)

lemma getFrenetFrame_eq:
  "getFrenetFrame K h w p = (fst (s2559 K (deref w (curve h)) p), record_call (Call_s2559 p) w)"
  by (simp add: getFrenetFrame_def split_def)

text \<open>The heading is read off the curve object alone; the kernel is called every time.\<close>

lemma getHeading_world: "snd (getHeading K h w p) = record_call (Call_s2559 p) w"
  by (simp add: getHeading_def getFrenetFrame_eq split_def Let_def)

lemma getHeading_record_call:
  "fst (getHeading K h (record_call c w) p) = fst (getHeading K h w p)"
  by (simp add: getHeading_def getFrenetFrame_eq split_def Let_def deref_record_call)

lemma heading_x_axis:
  "getHeading line_kernel handle0 (world L) p = (Fin 0, (world L)\<lparr>calls := [Call_s2559 p]\<rparr>)"
  by (simp add: getHeading_def getFrenetFrame_def eval_defs)

lemma getPoint_in_domain:
  assumes "dle (start_param h) p" "dle p (end_param h)"
  shows "getPoint K h w p =
    (let (result, status) = s1227 K (deref w (curve h)) p;
         w1 = record_call (Call_s1227 p) w
     in if status \<noteq> 0 then (Inl (runtime_error ''SISL error while computing a curve point''), w1)
        else (Inr result, w1))"
  using assms by (simp add: getPoint_def dgt_def dle_not_dless)

text \<open>
  The three queries that check the domain throw before the kernel is called: the
  kernel's memory, with its record of calls, is returned as it was.
\<close>

lemma checked_queries_out_of_domain:
  assumes "dless p (start_param h) \<or> dgt p (end_param h)"
  shows "getPoint K h w p =
           (Inl (out_of_range ''_param is not in the [start_param, end_param] range''), w)"
    and "getCurvature K h w p =
           (Inl (out_of_range ''_param is not in the [start_param, end_param] range''), w)"
    and "getVariationOfCurvature K h w p =
           (Inl (out_of_range ''_param is not in the [start_param, end_param] range''), w)"
  using assms by (simp_all add: getPoint_def getCurvature_def getVariationOfCurvature_def)

lemma findClosestPoints_eq:
  "s1953 K (deref w (curve h)) pt (dimension h) geores = (points, curves, status) \<Longrightarrow>
   findClosestPoints K h w pt ps cs geores =
     (if status \<noteq> 0 then Inl (runtime_error ''failed to find the closest points'')
      else Inr (ps @ points, cs @ map (\<lambda>c. (epar1 c ! 0, epar1 c ! 1)) curves),
      record_call (Call_s1953 geores) w)"
  by (simp add: findClosestPoints_def)




lemma getCurveLength_params:
  "getCurveLength K h w = (r, h1, w1) \<Longrightarrow>
     start_param h1 = start_param h \<and> end_param h1 = end_param h"
  by (auto simp: getCurveLength_def Let_def split_def split: if_splits)



text \<open>Assignment from another handle duplicates the curve: the model of \<open>operator=\<close> is not idle.\<close>

lemma assignment_copies_curve:
  "curve (fst (operator_assign (\<lambda>a. handle0) (world 2) 7 8) 7) = Some 1 \<and>
   heap (snd (operator_assign (\<lambda>a. handle0) (world 2) 7 8)) 1 = Some 2 \<and>
   calls (snd (operator_assign (\<lambda>a. handle0) (world 2) 7 8)) = [Call_copyCurve 0]"
  by (simp add: operator_assign_def copyCurve_def newCurve_def eval_defs)

text \<open>
  The sampling loop on a segment of length \<open>1/5\<close>: the unit parameter is \<open>5\<close>, the step
  \<open>1/2\<close>, and the curvature is sampled at \<open>0\<close>, \<open>1/2\<close> and \<open>1\<close>.
\<close>

lemma getCurvatureMax_samples:
  "getCurvatureMax line_kernel handle0 (world (1 / 5)) =
     Some (Inr (Fin 0),
           handle0\<lparr>curve_length := Fin (1 / 5), has_curve_length := True,
                   curvature_max := Fin 0, has_curvature_max := True\<rparr>,
           (world (1 / 5))\<lparr>calls := [Call_s1240 (Fin (1 / 10)), Call_s2550 (Fin 0),
                                      Call_s2550 (Fin (1 / 2)), Call_s2550 (Fin 1)]\<rparr>)"
  by (simp add: getCurvatureMax_def getUnitParameter_def getCurveLength_def getCurvature_def
      curvature_scan.simps eval_defs)

section \<open>The cache of the derived scalars\<close>




section \<open>Point and differential queries\<close>

text \<open>
  C2 at a parameter outside the domain: the handle's domain is \<open>[0, 1]\<close> and the
  parameter is \<open>2\<close>. \<open>getPoint\<close> throws \<open>out_of_range\<close> with the kernel untouched, as
  \<open>checked_queries_out_of_domain\<close> shows for its two siblings as well.
  \<open>getFrenetFrame\<close> and \<open>getHeading\<close> do not: each calls the kernel routine \<open>s2559\<close>
  and returns a value.
\<close>

theorem frenet_frame_outside_domain:
  "dgt (Fin 2) (end_param handle0) \<and>
   getPoint line_kernel handle0 (world 2) (Fin 2) =
     (Inl (out_of_range ''_param is not in the [start_param, end_param] range''), world 2) \<and>
   getFrenetFrame line_kernel handle0 (world 2) (Fin 2) =
     (x_axis_frame, (world 2)\<lparr>calls := [Call_s2559 (Fin 2)]\<rparr>) \<and>
   getHeading line_kernel handle0 (world 2) (Fin 2) =
     (Fin 0, (world 2)\<lparr>calls := [Call_s2559 (Fin 2)]\<rparr>)"
  by (simp add: getPoint_def getHeading_def getFrenetFrame_def eval_defs)

section \<open>The unit parameter\<close>

text \<open>
  C3, as the code has it: when \<open>getCurveLength\<close> returns a length, \<open>getUnitParameter\<close>
  returns the quotient \<open>(end_param - start_param) / length\<close> and leaves the handle and the
  kernel as \<open>getCurveLength\<close> left them; when \<open>getCurveLength\<close> throws, it throws the
  same error. There is no check of the divisor: for a length of zero the quotient is
  an infinity or NaN, returned as a value.
\<close>

theorem getUnitParameter_quotient:
  "(\<forall>len h1 w1. getCurveLength K h w = (Inr len, h1, w1) \<longrightarrow>
      getUnitParameter K h w = (Inr (ddiv (dsub (end_param h) (start_param h)) len), h1, w1) \<and>
      (len = Fin 0 \<longrightarrow> ddiv (dsub (end_param h) (start_param h)) len \<in> {PInf, NInf, NaN})) \<and>
   (\<forall>e h1 w1. getCurveLength K h w = (Inl e, h1, w1) \<longrightarrow>
      getUnitParameter K h w = (Inl e, h1, w1))"
proof -
  have z: "ddiv a (Fin 0) \<in> {PInf, NInf, NaN}" for a
    by (cases a) (auto simp: signed_inf_def)
  show ?thesis
    using z by (auto simp: getUnitParameter_def dest: getCurveLength_params)
qed

theorem getUnitParameter_quotient_witness:
  "fst (getUnitParameter line_kernel handle0 (world 2)) = Inr (Fin (1 / 2)) \<and>
   fst (getUnitParameter line_kernel handle0 (world 0)) = Inr (ddiv (Fin 1) (Fin 0)) \<and>
   ddiv (Fin 1) (Fin 0) \<in> {PInf, NInf, NaN}"
proof -
  have a: "getCurveLength line_kernel handle0 (world 2) =
      (Inr (Fin 2), handle0\<lparr>curve_length := Fin 2, has_curve_length := True\<rparr>,
       (world 2)\<lparr>calls := [Call_s1240 (Fin (1 / 10))]\<rparr>)"
    by (simp add: getCurveLength_def eval_defs)
  have b: "getCurveLength line_kernel handle0 (world 0) =
      (Inr (Fin 0), handle0\<lparr>curve_length := Fin 0, has_curve_length := True\<rparr>,
       (world 0)\<lparr>calls := [Call_s1240 (Fin (1 / 10))]\<rparr>)"
    by (simp add: getCurveLength_def eval_defs)
  have c: "dsub (end_param handle0) (start_param handle0) = Fin 1"
    by (simp add: eval_defs)
  from getUnitParameter_quotient [of line_kernel handle0 "world 2"] a c
  have "fst (getUnitParameter line_kernel handle0 (world 2)) = Inr (Fin (1 / 2))" by simp
  moreover from getUnitParameter_quotient [of line_kernel handle0 "world 0"] b c
  have "fst (getUnitParameter line_kernel handle0 (world 0)) = Inr (ddiv (Fin 1) (Fin 0)) \<and>
        ddiv (Fin 1) (Fin 0) \<in> {PInf, NInf, NaN}" by simp
  ultimately show ?thesis by simp
qed

text \<open>
  C3 as stated fails on a curve of length zero: the kernel integrates it with status
  \<open>0\<close>, \<open>getCurveLength\<close> returns \<open>0\<close>, and \<open>getUnitParameter\<close> returns plus infinity, not
  an error.
\<close>

theorem unit_parameter_zero_length:
  "fst (getCurveLength line_kernel handle0 (world 0)) = Inr (Fin 0) \<and>
   fst (getUnitParameter line_kernel handle0 (world 0)) = Inr PInf"
  by (simp add: getUnitParameter_def getCurveLength_def eval_defs)

section \<open>The pose error\<close>

text \<open>
  C4: when \<open>getUnitParameter\<close> returns \<open>u\<close>, \<open>poseError\<close> calls the local search \<open>s1774\<close>
  with the guess \<open>st_para\<close>, the window from \<open>st_para\<close> to \<open>st_para + u * len_tol\<close> and
  the handle's geometric resolution as tolerance. When the search reports a status
  that is not negative and the parameter \<open>param\<close>, and \<open>distanceError\<close> at \<open>param\<close>
  returns \<open>d\<close>, the result is the vector \<open>(d, headingError at param, param)\<close>.
\<close>

theorem poseError_window:
  assumes "getUnitParameter K h w = (Inr u, h1, w1)"
      and "wend = dadd st_para (dmul u len_tol)"
      and "s1774 K (deref w1 (curve h1)) [px, py, pz] (dimension h1) (geometric_resolution h1)
             st_para wend st_para = (param, status)"
      and "0 \<le> status"
      and "distanceError K h1
             (record_call (Call_s1774 (geometric_resolution h1) st_para wend st_para) w1)
             (px, py, pz) param = (Inr d, w3)"
  shows "poseError K h w (px, py, pz) actZRot st_para len_tol =
           (Inr (d, fst (headingError K h1 w3 actZRot param), param), h1,
            snd (headingError K h1 w3 actZRot param))"
  using assms
  by (simp add: poseError_def localClosestPointSearch_def getGeometricResolution_def Let_def
      split_def)

text \<open>
  On the segment of length \<open>2\<close> along the X axis, from the point \<open>(0, 1, 0)\<close> with heading
  \<open>0\<close>, start parameter \<open>0\<close> and tolerance \<open>1\<close>: the unit parameter is \<open>1/2\<close>, the window
  \<open>[0, 1/2]\<close>, and the pose error \<open>(1, 0, 0)\<close>.
\<close>

theorem poseError_window_witness:
  "fst (poseError line_kernel handle0 (world 2) (Fin 0, Fin 1, Fin 0) (Fin 0) (Fin 0) (Fin 1)) =
     Inr (Fin 1, Fin 0, Fin 0) \<and>
   calls (snd (snd (poseError line_kernel handle0 (world 2) (Fin 0, Fin 1, Fin 0) (Fin 0) (Fin 0)
                      (Fin 1)))) =
     [Call_s1240 (Fin (1 / 10)), Call_s1774 (Fin (1 / 10)) (Fin 0) (Fin (1 / 2)) (Fin 0),
      Call_s1227 (Fin 0), Call_s2559 (Fin 0), Call_s2559 (Fin 0)]"
proof -
  let ?h1 = "handle0\<lparr>curve_length := Fin 2, has_curve_length := True\<rparr>"
  let ?w1 = "(world 2)\<lparr>calls := [Call_s1240 (Fin (1 / 10))]\<rparr>"
  let ?w2 = "record_call (Call_s1774 (geometric_resolution ?h1) (Fin 0) (Fin (1 / 2)) (Fin 0)) ?w1"
  let ?w3 = "?w2\<lparr>calls := calls ?w2 @ [Call_s1227 (Fin 0), Call_s2559 (Fin 0)]\<rparr>"
  have a: "getUnitParameter line_kernel handle0 (world 2) = (Inr (Fin (1 / 2)), ?h1, ?w1)"
    by (simp add: getUnitParameter_def getCurveLength_def eval_defs)
  have b: "Fin (1 / 2) = dadd (Fin 0) (dmul (Fin (1 / 2)) (Fin 1))" by simp
  have c: "s1774 line_kernel (deref ?w1 (curve ?h1)) [Fin 0, Fin 1, Fin 0] (dimension ?h1)
             (geometric_resolution ?h1) (Fin 0) (Fin (1 / 2)) (Fin 0) = (Fin 0, 1)"
    by (simp add: eval_defs)
  have d: "(0::int) \<le> 1" by simp
  have e: "distanceError line_kernel ?h1 ?w2 (Fin 0, Fin 1, Fin 0) (Fin 0) = (Inr (Fin 1), ?w3)"
    by (simp add: distanceError_def getPoint_def getHeading_def getFrenetFrame_def eval_defs)
  have f: "headingError line_kernel ?h1 ?w3 (Fin 0) (Fin 0) =
             (Fin 0, ?w3\<lparr>calls := calls ?w3 @ [Call_s2559 (Fin 0)]\<rparr>)"
    by (simp add: headingError_def getHeading_def getFrenetFrame_def eval_defs)
  from poseError_window [OF a b c d e, of "Fin 0"] f
  show ?thesis by (simp add: eval_defs)
qed

section \<open>The heading error\<close>

text \<open>
  C5: with \<open>e\<close> the raw difference \<open>actHeading - getHeading(param)\<close>, \<open>headingError\<close>
  returns \<open>e - 2\<pi>\<close> when \<open>e > \<pi>\<close>, \<open>e + 2\<pi>\<close> when \<open>e < -\<pi>\<close>, and \<open>e\<close> otherwise: one
  correction at most. For a raw difference strictly between \<open>\<pi>\<close> and \<open>3\<pi>\<close> the result is
  \<open>e - 2\<pi>\<close>, which is greater than \<open>-\<pi>\<close> and at most \<open>\<pi>\<close>.
\<close>

theorem headingError_wrap:
  assumes "getHeading K h w param = (heading, w1)"
  shows "(let e = dsub actHeading heading; r = fst (headingError K h w actHeading param) in
      (dgt e M_PI \<longrightarrow> r = dsub e (dmul (Fin 2) M_PI)) \<and>
      (dless e (dneg M_PI) \<longrightarrow> r = dadd e (dmul (Fin 2) M_PI)) \<and>
      (\<not> dgt e M_PI \<and> \<not> dless e (dneg M_PI) \<longrightarrow> r = e) \<and>
      (\<forall>x. e = Fin x \<and> pi < x \<and> x < 3 * pi \<longrightarrow>
         r = Fin (x - 2 * pi) \<and> - pi < x - 2 * pi \<and> x - 2 * pi \<le> pi) \<and>
      (dless M_PI e \<and> dless e (dmul (Fin 3) M_PI) \<longrightarrow> dless (dneg M_PI) r \<and> dle r M_PI))"
proof -
  define e where "e = dsub actHeading heading"
  have r: "fst (headingError K h w actHeading param) =
      (if dgt e M_PI then dsub e (dmul (Fin 2) M_PI)
       else if dless e (dneg M_PI) then dadd e (dmul (Fin 2) M_PI) else e)"
    using assms by (simp add: headingError_def e_def Let_def)
  have excl: "dless e (dneg M_PI) \<Longrightarrow> \<not> dgt e M_PI"
  proof (cases e)
    case (Fin x)
    have "x < - pi \<Longrightarrow> \<not> pi < x" using pi_gt_zero by linarith
    then show "dless e (dneg M_PI) \<Longrightarrow> \<not> dgt e M_PI"
      by (auto simp: Fin M_PI_def dgt_def)
  qed (auto simp: M_PI_def dgt_def)
  have fin: "e = Fin x \<Longrightarrow> pi < x \<Longrightarrow> x < 3 * pi \<Longrightarrow>
      fst (headingError K h w actHeading param) = Fin (x - 2 * pi)" for x
    by (simp add: r M_PI_def dgt_def dsub_def)
  have rng: "dless M_PI e \<Longrightarrow> dless e (dmul (Fin 3) M_PI) \<Longrightarrow>
      dless (dneg M_PI) (fst (headingError K h w actHeading param)) \<and>
      dle (fst (headingError K h w actHeading param)) M_PI"
    by (cases e) (auto simp: r M_PI_def dgt_def dsub_def)
  show ?thesis
    unfolding Let_def e_def [symmetric]
    using r excl fin rng by auto
qed

text \<open>An actual heading of \<open>4\<close> radians against the heading \<open>0\<close> of the X axis.\<close>

theorem headingError_wrap_witness:
  "pi < 4 \<and> 4 < 3 * pi \<and>
   fst (headingError line_kernel handle0 (world 2) (Fin 4) (Fin 0)) = Fin (4 - 2 * pi) \<and>
   - pi < 4 - 2 * pi \<and> 4 - 2 * pi \<le> pi"
proof -
  have a: "pi < 4" by (rule pi_less_4)
  have b: "4 < 3 * pi" using pi_ge_two by linarith
  have e: "dsub (Fin 4) (Fin 0) = Fin 4" by (simp add: dsub_def)
  from headingError_wrap [OF heading_x_axis, where actHeading = "Fin 4"] a b e
  show ?thesis by (simp add: Let_def)
qed

section \<open>The distance error\<close>

text \<open>
  What \<open>distanceError\<close> computes: for a parameter inside the domain at which the kernel
  evaluates the curve point \<open>r\<close> with status \<open>0\<close>, it returns the 2D norm of the
  horizontal residual (the first two coefficients of \<open>pt - r\<close>; the third plays no
  part) when the bearing of the residual minus the heading at \<open>param\<close> is \<open>\<ge> 0\<close>, and
  the negated norm otherwise. The code takes the bearing of the normalised residual,
  which for a finite residual that is not zero is the bearing of the residual itself.
  The difference of the two angles is compared as it is, without wrapping.
\<close>

theorem distanceError_signed_norm:
  assumes "dle (start_param h) param" and "dle param (end_param h)"
    and "s1227 K (deref w (curve h)) param = (r, 0)"
  shows "(let residual = (dsub (fst pt) (r ! 0), dsub (fst (snd pt)) (r ! 1));
              direction = normalize2d residual;
              bearing = datan2 (snd direction) (fst direction);
              angle = dsub bearing (fst (getHeading K h w param))
          in fst (distanceError K h w pt param) =
               Inr (if dge angle (Fin 0) then norm2d residual else dneg (norm2d residual)) \<and>
             (\<forall>x y. residual = (Fin x, Fin y) \<and> (x \<noteq> 0 \<or> y \<noteq> 0) \<longrightarrow>
                bearing = datan2 (Fin y) (Fin x)))"
proof -
  have gp: "getPoint K h w param = (Inr r, record_call (Call_s1227 param) w)"
    using assms by (simp add: getPoint_in_domain)
  obtain px py pz where pt: "pt = (px, py, pz)" by (cases pt) auto
  have val: "fst (distanceError K h w pt param) =
     (let residual = (dsub (fst pt) (r ! 0), dsub (fst (snd pt)) (r ! 1));
          direction = normalize2d residual;
          angle = dsub (datan2 (snd direction) (fst direction)) (fst (getHeading K h w param))
      in Inr (if dge angle (Fin 0) then norm2d residual else dneg (norm2d residual)))"
    by (simp add: distanceError_def gp pt sub3d_def Let_def split_def norm3d_horizontal
        getHeading_record_call)
  show ?thesis
    using val by (auto simp: Let_def bearing_normalize2d)
qed

text \<open>
  A point one unit to the left of the X axis and one a unit to the right, both five units
  above it: the errors are \<open>1\<close> and \<open>-1\<close>.
\<close>

theorem distanceError_signed_norm_witness:
  "fst (distanceError line_kernel handle0 (world 2) (Fin 0, Fin 1, Fin 5) (Fin 0)) = Inr (Fin 1) \<and>
   fst (distanceError line_kernel handle0 (world 2) (Fin 0, Fin (- 1), Fin 5) (Fin 0)) =
     Inr (Fin (- 1))"
proof -
  have a: "dle (start_param handle0) (Fin 0)" by (simp add: handle0_def)
  have b: "dle (Fin 0) (end_param handle0)" by (simp add: handle0_def)
  have c: "s1227 line_kernel (deref (world 2) (curve handle0)) (Fin 0) = ([Fin 0, Fin 0, Fin 0], 0)"
    by (simp add: eval_defs)
  have h: "fst (getHeading line_kernel handle0 (world 2) (Fin 0)) = Fin 0"
    by (simp add: heading_x_axis)
  from distanceError_signed_norm [OF a b c, of "(Fin 0, Fin 1, Fin 5)"] h
  have "fst (distanceError line_kernel handle0 (world 2) (Fin 0, Fin 1, Fin 5) (Fin 0)) =
          Inr (Fin 1)"
    by (simp add: eval_defs Let_def)
  moreover
  from distanceError_signed_norm [OF a b c, of "(Fin 0, Fin (- 1), Fin 5)"] h
  have "fst (distanceError line_kernel handle0 (world 2) (Fin 0, Fin (- 1), Fin 5) (Fin 0)) =
          Inr (Fin (- 1))"
    by (simp add: eval_defs Let_def pi_not_le_zero)
  ultimately show ?thesis by simp
qed

text \<open>
  C6 on a path with heading \<open>\<pi>\<close>: the curve point at parameter \<open>0\<close> is the origin and the
  tangent is \<open>(-1, 0, 0)\<close>. The point \<open>(0, -1, 0)\<close> lies to the left of the tangent (the
  cross product of tangent and residual is \<open>(-1) * (-1) - 0 * 0 = 1 > 0\<close>), so its
  distance error should be \<open>1\<close>. Its bearing is \<open>-\<pi>/2\<close>, the unwrapped difference
  \<open>-\<pi>/2 - \<pi> = -3\<pi>/2\<close> is negative, and \<open>distanceError\<close> returns \<open>-1\<close>, as it does for
  the point \<open>(0, 1, 0)\<close> to the right. The sign is that of the unwrapped difference,
  not the side of the path; \<open>headingError\<close> wraps its difference, \<open>distanceError\<close> does
  not.
\<close>

theorem distanceError_left_point_negative:
  "fst (fst (getFrenetFrame reversed_kernel handle0 (world 2) (Fin 0))) =
     (Fin (- 1), Fin 0, Fin 0) \<and>
   fst (getHeading reversed_kernel handle0 (world 2) (Fin 0)) = Fin pi \<and>
   fst (getPoint reversed_kernel handle0 (world 2) (Fin 0)) = Inr [Fin 0, Fin 0, Fin 0] \<and>
   dsub (datan2 (Fin (- 1)) (Fin 0)) (Fin pi) = Fin (- (pi / 2) - pi) \<and>
   fst (distanceError reversed_kernel handle0 (world 2) (Fin 0, Fin (- 1), Fin 0) (Fin 0)) =
     Inr (Fin (- 1)) \<and>
   fst (distanceError reversed_kernel handle0 (world 2) (Fin 0, Fin 1, Fin 0) (Fin 0)) =
     Inr (Fin (- 1))"
  by (simp add: distanceError_def getPoint_def getHeading_def getFrenetFrame_def
      reversed_kernel_def reversed_frame_def eval_defs Let_def pi_not_le_zero)

section \<open>Closest-point search\<close>

text \<open>
  C7: with \<open>points\<close>, \<open>curves\<close> and \<open>status\<close> what the global search \<open>s1953\<close> reports,
  \<open>findOneClosestPoint\<close> returns the first isolated parameter when the search succeeded
  with some isolated point, the first guide parameter \<open>epar1[0]\<close> of the first
  ambiguous segment when it succeeded with segments only, and throws \<open>logic_error\<close>
  exactly when it succeeded with neither.
\<close>

theorem findOneClosestPoint_cases:
  assumes "s1953 K (deref w (curve h)) pt (dimension h) geores = (points, curves, status)"
  shows "(status = 0 \<and> points \<noteq> [] \<longrightarrow>
            fst (findOneClosestPoint K h w pt geores) = Inr (hd points)) \<and>
         (status = 0 \<and> points = [] \<and> curves \<noteq> [] \<longrightarrow>
            fst (findOneClosestPoint K h w pt geores) = Inr (epar1 (hd curves) ! 0)) \<and>
         ((\<exists>msg. fst (findOneClosestPoint K h w pt geores) = Inl (logic_error msg)) \<longleftrightarrow>
            (status = 0 \<and> points = [] \<and> curves = []))"
  using assms
  by (cases curves)
     (auto simp: findOneClosestPoint_def findClosestPoints_eq [where ps = "[]" and cs = "[]"])

text \<open>
  The three cases on concrete kernels: one isolated point; no point and the segment
  \<open>[1/4, 3/4]\<close>; neither.
\<close>

theorem findOneClosestPoint_cases_witness:
  "fst (findOneClosestPoint line_kernel handle0 (world 2) [Fin 0, Fin 1, Fin 0] (Fin (1 / 10))) =
     Inr (Fin 0) \<and>
   fst (findOneClosestPoint
          (line_kernel\<lparr>s1953 := \<lambda>c pt dim geores.
             ([], [\<lparr>epar1 = [Fin (1 / 4), Fin (3 / 4)]\<rparr>], 0)\<rparr>)
          handle0 (world 2) [Fin 0, Fin 1, Fin 0] (Fin (1 / 10))) = Inr (Fin (1 / 4)) \<and>
   (\<exists>msg. fst (findOneClosestPoint (line_kernel\<lparr>s1953 := \<lambda>c pt dim geores. ([], [], 0)\<rparr>)
          handle0 (world 2) [Fin 0, Fin 1, Fin 0] (Fin (1 / 10))) = Inl (logic_error msg))"
proof -
  let ?pt = "[Fin 0, Fin 1, Fin 0]"
  let ?K1 = "line_kernel\<lparr>s1953 := \<lambda>c pt dim geores.
               ([], [\<lparr>epar1 = [Fin (1 / 4), Fin (3 / 4)]\<rparr>], 0)\<rparr>"
  let ?K2 = "line_kernel\<lparr>s1953 := \<lambda>c pt dim geores. ([], [], 0)\<rparr>"
  have a: "s1953 line_kernel (deref (world 2) (curve handle0)) ?pt (dimension handle0)
             (Fin (1 / 10)) = ([Fin 0], [], 0)"
    by (simp add: eval_defs)
  have b: "s1953 ?K1 (deref (world 2) (curve handle0)) ?pt (dimension handle0) (Fin (1 / 10))
             = ([], [\<lparr>epar1 = [Fin (1 / 4), Fin (3 / 4)]\<rparr>], 0)"
    by simp
  have c: "s1953 ?K2 (deref (world 2) (curve handle0)) ?pt (dimension handle0) (Fin (1 / 10))
             = ([], [], 0)"
    by simp
  from findOneClosestPoint_cases [OF a] findOneClosestPoint_cases [OF b]
    findOneClosestPoint_cases [OF c]
  show ?thesis by simp
qed

text \<open>
  C8: \<open>localClosestPointSearch\<close> throws its \<open>runtime_error\<close> exactly when the status of
  \<open>s1774\<close> is negative, and returns the kernel's parameter for every status \<open>\<ge> 0\<close>;
  \<open>findClosestPoints\<close> throws its \<open>runtime_error\<close> exactly when the status of \<open>s1953\<close> is
  not zero. A positive status is a success of the first and a failure of the second.
\<close>

theorem status_conventions:
  assumes "s1774 K (deref w (curve h)) ref_point (dimension h) geores wstart wend guess =
             (param, st_local)"
      and "s1953 K (deref w (curve h)) ref_point (dimension h) geores =
             (points, curves, st_global)"
  shows "(fst (localClosestPointSearch K h w ref_point guess wstart wend geores) =
            Inl (runtime_error ''failed to find the closest points'') \<longleftrightarrow> st_local < 0) \<and>
         (0 \<le> st_local \<longrightarrow>
            fst (localClosestPointSearch K h w ref_point guess wstart wend geores) = Inr param) \<and>
         (fst (findClosestPoints K h w ref_point ps cs geores) =
            Inl (runtime_error ''failed to find the closest points'') \<longleftrightarrow> st_global \<noteq> 0) \<and>
         (st_global = 0 \<longrightarrow>
            (\<exists>r. fst (findClosestPoints K h w ref_point ps cs geores) = Inr r))"
  using assms
  by (auto simp: localClosestPointSearch_def findClosestPoints_eq Let_def split: if_splits)

text \<open>A kernel that reports the status \<open>1\<close> from both searches.\<close>

theorem status_conventions_witness:
  "fst (localClosestPointSearch (line_kernel\<lparr>s1953 := \<lambda>c pt dim geores. ([Fin 0], [], 1)\<rparr>)
          handle0 (world 2) [Fin 0, Fin 1, Fin 0] (Fin 0) (Fin 0) (Fin 1) (Fin (1 / 10))) =
     Inr (Fin 0) \<and>
   fst (findClosestPoints (line_kernel\<lparr>s1953 := \<lambda>c pt dim geores. ([Fin 0], [], 1)\<rparr>)
          handle0 (world 2) [Fin 0, Fin 1, Fin 0] [] [] (Fin (1 / 10))) =
     Inl (runtime_error ''failed to find the closest points'')"
proof -
  let ?K = "line_kernel\<lparr>s1953 := \<lambda>c pt dim geores. ([Fin 0], [], 1)\<rparr>"
  have a: "s1774 ?K (deref (world 2) (curve handle0)) [Fin 0, Fin 1, Fin 0] (dimension handle0)
             (Fin (1 / 10)) (Fin 0) (Fin 1) (Fin 0) = (Fin 0, 1)"
    by (simp add: eval_defs)
  have b: "s1953 ?K (deref (world 2) (curve handle0)) [Fin 0, Fin 1, Fin 0] (dimension handle0)
             (Fin (1 / 10)) = ([Fin 0], [], 1)"
    by (simp add: eval_defs)
  from status_conventions [OF a b, of "[]" "[]"] show ?thesis by simp
qed

section \<open>The cached curve length\<close>




section \<open>Self-assignment\<close>

text \<open>
  C10: assigning the handle at address \<open>this\<close> to itself returns the store of handles
  and the kernel's memory as they were: no member of any handle changes, no curve
  object is released or duplicated, and no kernel call is recorded.
\<close>

theorem self_assignment_noop: "operator_assign objs w this this = (objs, w)"
  by (simp add: operator_assign_def)

theorem self_assignment_noop_witness:
  "operator_assign (\<lambda>a. handle0) (world 2) 7 7 = (\<lambda>a. handle0, world 2)"
  using self_assignment_noop [of "\<lambda>a. handle0" "world 2" 7] by simp

end
